theory Spec2Isabelle
  imports Complex_Main
begin

section \<open>JavaScript numbers\<close>

text \<open>
  The editor and the viewer compute with JavaScript numbers. A number is modelled as a
  real (\<open>Fin r\<close>), one of the two infinities, or \<open>NaN\<close>. The arithmetic on finite values
  by \<open>js_add\<close>, \<open>js_sub\<close>, \<open>js_mul\<close> and \<open>js_div\<close> is exact: there the rounding to the
  nearest double and the overflow to an infinity are abstracted. The fit of the image,
  the point that the pointer handlers derive from an event, and the distance filter of
  the freehand tool are computed on doubles, with the rounded operations \<open>dbl_sub\<close>,
  \<open>dbl_mul\<close>, \<open>dbl_div\<close> and \<open>dbl_add\<close> below: the filter compares at a threshold that the
  rounding can cross, and the numbers it compares come from the fit and from that point.
  What IEEE 754 does beyond the reals is kept: division by zero gives an infinity or
  \<open>NaN\<close>, \<open>NaN\<close> propagates through every operation, and every comparison with \<open>NaN\<close> is
  false. The two zeros are identified; a zero divisor counts as \<open>+0\<close>.
\<close>

datatype jsnum = Fin real | PInf | NInf | NaN

fun js_neg :: "jsnum \<Rightarrow> jsnum" where
  "js_neg (Fin a) = Fin (- a)"
| "js_neg PInf = NInf"
| "js_neg NInf = PInf"
| "js_neg NaN = NaN"

fun js_add :: "jsnum \<Rightarrow> jsnum \<Rightarrow> jsnum" where
  "js_add (Fin a) (Fin b) = Fin (a + b)"
| "js_add NaN _ = NaN"
| "js_add _ NaN = NaN"
| "js_add PInf NInf = NaN"
| "js_add NInf PInf = NaN"
| "js_add PInf _ = PInf"
| "js_add NInf _ = NInf"
| "js_add _ PInf = PInf"
| "js_add _ NInf = NInf"

definition js_sub :: "jsnum \<Rightarrow> jsnum \<Rightarrow> jsnum" where
  "js_sub a b = js_add a (js_neg b)"

text \<open>An infinity with the sign of a nonzero real.\<close>

definition signed_inf :: "real \<Rightarrow> jsnum" where
  "signed_inf a = (if 0 < a then PInf else NInf)"

fun js_mul :: "jsnum \<Rightarrow> jsnum \<Rightarrow> jsnum" where
  "js_mul (Fin a) (Fin b) = Fin (a * b)"
| "js_mul NaN _ = NaN"
| "js_mul _ NaN = NaN"
| "js_mul (Fin a) PInf = (if a = 0 then NaN else signed_inf a)"
| "js_mul (Fin a) NInf = (if a = 0 then NaN else signed_inf (- a))"
| "js_mul PInf (Fin b) = (if b = 0 then NaN else signed_inf b)"
| "js_mul NInf (Fin b) = (if b = 0 then NaN else signed_inf (- b))"
| "js_mul PInf PInf = PInf"
| "js_mul NInf NInf = PInf"
| "js_mul PInf NInf = NInf"
| "js_mul NInf PInf = NInf"

fun js_div :: "jsnum \<Rightarrow> jsnum \<Rightarrow> jsnum" where
  "js_div (Fin a) (Fin b) =
     (if b = 0 then (if a = 0 then NaN else signed_inf a) else Fin (a / b))"
| "js_div NaN _ = NaN"
| "js_div _ NaN = NaN"
| "js_div (Fin a) PInf = Fin 0"
| "js_div (Fin a) NInf = Fin 0"
| "js_div PInf (Fin b) = (if 0 \<le> b then PInf else NInf)"
| "js_div NInf (Fin b) = (if 0 \<le> b then NInf else PInf)"
| "js_div PInf PInf = NaN"
| "js_div PInf NInf = NaN"
| "js_div NInf PInf = NaN"
| "js_div NInf NInf = NaN"

text \<open>The comparison \<open>a < b\<close>; \<open>a > b\<close> is \<open>js_lt b a\<close>.\<close>

fun js_lt :: "jsnum \<Rightarrow> jsnum \<Rightarrow> bool" where
  "js_lt (Fin a) (Fin b) = (a < b)"
| "js_lt NaN _ = False"
| "js_lt _ NaN = False"
| "js_lt NInf NInf = False"
| "js_lt NInf _ = True"
| "js_lt PInf _ = False"
| "js_lt (Fin a) PInf = True"
| "js_lt (Fin a) NInf = False"

text \<open>\<open>Math.min\<close> and \<open>Math.max\<close> of two arguments: \<open>NaN\<close> if either argument is.\<close>

fun js_min :: "jsnum \<Rightarrow> jsnum \<Rightarrow> jsnum" where
  "js_min NaN _ = NaN"
| "js_min _ NaN = NaN"
| "js_min a b = (if js_lt b a then b else a)"

fun js_max :: "jsnum \<Rightarrow> jsnum \<Rightarrow> jsnum" where
  "js_max NaN _ = NaN"
| "js_max _ NaN = NaN"
| "js_max a b = (if js_lt a b then b else a)"

text \<open>
  \<open>Math.hypot\<close> of two arguments: an infinity if either argument is infinite (even when
  the other is \<open>NaN\<close>), else \<open>NaN\<close> if either is \<open>NaN\<close>, else the Euclidean norm.
\<close>

fun js_hypot :: "jsnum \<Rightarrow> jsnum \<Rightarrow> jsnum" where
  "js_hypot (Fin a) (Fin b) = Fin (sqrt (a * a + b * b))"
| "js_hypot PInf _ = PInf"
| "js_hypot NInf _ = PInf"
| "js_hypot _ PInf = PInf"
| "js_hypot _ NInf = PInf"
| "js_hypot NaN _ = NaN"
| "js_hypot _ NaN = NaN"

subsection \<open>Rounding to double precision\<close>

text \<open>Rounding of a real to the nearest integer, a tie going to the even one.\<close>

definition round_even :: "real \<Rightarrow> int" where
  "round_even y =
     (let f = \<lfloor>y\<rfloor>; r = y - of_int f
      in if r < 1 / 2 then f else if 1 / 2 < r then f + 1
         else if even f then f else f + 1)"

text \<open>
  The exponent \<open>e\<close> of the binade of a nonzero real, \<open>2^e \<le> |x| < 2^(e+1)\<close>; the
  subnormal numbers share the exponent \<open>-1022\<close>.
\<close>

definition binade :: "real \<Rightarrow> int" where
  "binade x = max (- 1022) \<lfloor>log 2 \<bar>x\<bar>\<rfloor>"

text \<open>
  The double nearest to a real (binary64: 53 significant bits, round to nearest, ties to
  even), an infinity when the rounded value reaches \<open>2^1024\<close>.
\<close>

definition dbl :: "real \<Rightarrow> jsnum" where
  "dbl x =
     (if x = 0 then Fin 0
      else
        (let u = 2 powr (of_int (binade x) - 52);
             r = of_int (round_even (x / u)) * u
         in if \<bar>r\<bar> < 2 powr 1024 then Fin r else signed_inf x))"

fun to_dbl :: "jsnum \<Rightarrow> jsnum" where
  "to_dbl (Fin a) = dbl a"
| "to_dbl v = v"

text \<open>The operations \<open>-\<close>, \<open>*\<close>, \<open>+\<close> and \<open>/\<close> on doubles: the exact result, rounded.\<close>

definition dbl_sub :: "jsnum \<Rightarrow> jsnum \<Rightarrow> jsnum" where
  "dbl_sub a b = to_dbl (js_sub a b)"

definition dbl_mul :: "jsnum \<Rightarrow> jsnum \<Rightarrow> jsnum" where
  "dbl_mul a b = to_dbl (js_mul a b)"


definition dbl_div :: "jsnum \<Rightarrow> jsnum \<Rightarrow> jsnum" where
  "dbl_div a b = to_dbl (js_div a b)"

section \<open>Data model\<close>

text \<open>\<open>Point\<close> of \<open>types.ts\<close>, as the editor uses it: two numbers.\<close>

record Point =
  px :: jsnum
  py :: jsnum

datatype ToolType = Freehand | Polygon | Move

text \<open>The \<open>dimensions\<close> state of the editor (the fit of the image into the container).\<close>

record Dimensions =
  width :: jsnum
  height :: jsnum
  scale :: jsnum
  offsetX :: jsnum
  offsetY :: jsnum

text \<open>The loaded image, as far as the editor reads it: its intrinsic size.\<close>

record ImageElement =
  img_width :: nat
  img_height :: nat

record Magnifier =
  mag_show :: bool
  mag_x :: jsnum
  mag_y :: jsnum

text \<open>
  The state of the \<open>ImageEditor\<close> component: one field per \<open>useState\<close> hook, and the
  \<open>imageUrl\<close> property. A \<open>null\<close> state is \<open>None\<close>. Every handler runs against the state of
  the latest render and its state updates are applied together before the next event.
\<close>

record Editor =
  points :: "Point list"
  history :: "Point list list"
  historyStep :: nat
  tool :: ToolType
  cursorPos :: "Point option"
  draggingPointIndex :: "nat option"
  isDrawing :: bool
  dimensions :: Dimensions
  imageElement :: "ImageElement option"
  magnifierState :: "Magnifier option"
  imageUrl :: string

definition initial_dimensions :: Dimensions where
  "initial_dimensions =
     \<lparr>width = Fin 0, height = Fin 0, scale = Fin 1, offsetX = Fin 0, offsetY = Fin 0\<rparr>"

definition initial :: "string \<Rightarrow> Editor" where
  "initial url =
     \<lparr>points = [], history = [[]], historyStep = 0, tool = Freehand, cursorPos = None,
      draggingPointIndex = None, isDrawing = False, dimensions = initial_dimensions,
      imageElement = None, magnifierState = None, imageUrl = url\<rparr>"

text \<open>
  A handler that would leave \<open>undefined\<close> where a point or the contour is expected (a read
  of \<open>history\<close> out of range, a write that leaves a hole in \<open>points\<close>) returns this fault
  in place of a state: the next render throws on it.
\<close>

datatype fault = UndefinedContour

section \<open>History\<close>

text \<open>\<open>saveHistory\<close>: \<open>slice(0, historyStep + 1)\<close>, \<open>push\<close>, and the new last index.\<close>

definition saveHistory :: "Point list \<Rightarrow> Editor \<Rightarrow> Editor" where
  "saveHistory newPoints s =
     (let newHistory = take (historyStep s + 1) (history s) @ [newPoints]
      in s\<lparr>history := newHistory, historyStep := length newHistory - 1\<rparr>)"

definition handleUndo :: "Editor \<Rightarrow> fault + Editor" where
  "handleUndo s =
     (if 0 < historyStep s then
        (let step = historyStep s - 1
         in if step < length (history s)
            then Inr (s\<lparr>historyStep := step, points := history s ! step\<rparr>)
            else Inl UndefinedContour)
      else Inr s)"

definition handleRedo :: "Editor \<Rightarrow> fault + Editor" where
  "handleRedo s =
     (if int (historyStep s) < int (length (history s)) - 1 then
        (let step = historyStep s + 1
         in if step < length (history s)
            then Inr (s\<lparr>historyStep := step, points := history s ! step\<rparr>)
            else Inl UndefinedContour)
      else Inr s)"

definition handleClear :: "Editor \<Rightarrow> Editor" where
  "handleClear s = saveHistory [] (s\<lparr>points := []\<rparr>)"


section \<open>Coordinate mapping\<close>

text \<open>
  \<open>fitImage\<close>: the "contain" fit of the loaded image into a container of \<open>cw\<close> by \<open>ch\<close>
  pixels, in double arithmetic (the four sizes are integers below \<open>2^32\<close>, exact as
  doubles). Without a loaded image it returns early and the dimensions stay as they are.
\<close>

definition fitImage :: "nat \<Rightarrow> nat \<Rightarrow> Editor \<Rightarrow> Editor" where
  "fitImage cw ch s =
     (case imageElement s of
        None \<Rightarrow> s
      | Some img \<Rightarrow>
          (let iw = Fin (real (img_width img));
               ih = Fin (real (img_height img));
               sc = js_min (dbl_div (Fin (real cw)) iw) (dbl_div (Fin (real ch)) ih);
               renderWidth = dbl_mul iw sc;
               renderHeight = dbl_mul ih sc;
               ox = dbl_div (dbl_sub (Fin (real cw)) renderWidth) (Fin 2);
               oy = dbl_div (dbl_sub (Fin (real ch)) renderHeight) (Fin 2)
           in s\<lparr>dimensions :=
                  \<lparr>width = renderWidth, height = renderHeight, scale = sc,
                   offsetX = ox, offsetY = oy\<rparr>\<rparr>))"

definition toScreen :: "Dimensions \<Rightarrow> Point \<Rightarrow> Point" where
  "toScreen d pt =
     \<lparr>px = js_add (offsetX d) (js_mul (px pt) (width d)),
      py = js_add (offsetY d) (js_mul (py pt) (height d))\<rparr>"

text \<open>
  \<open>toScreen\<close> above and \<open>toNormalized\<close> here are the two helpers with exact arithmetic, as
  the round-trip law and the hit test use them.
\<close>

definition toNormalized :: "Dimensions \<Rightarrow> jsnum \<Rightarrow> jsnum \<Rightarrow> Point" where
  "toNormalized d x y =
     \<lparr>px = js_div (js_sub x (offsetX d)) (width d),
      py = js_div (js_sub y (offsetY d)) (height d)\<rparr>"

text \<open>\<open>Math.max(0, Math.min(1, v))\<close>, as both pointer handlers apply it to each axis.\<close>

definition clamp01 :: "jsnum \<Rightarrow> jsnum" where
  "clamp01 v = js_max (Fin 0) (js_min (Fin 1) v)"

text \<open>
  \<open>toNormalized\<close> as the pointer handlers evaluate it, in double arithmetic: the event
  coordinates and the dimensions are read as the doubles nearest to them, and the
  subtraction and the division round.
\<close>

definition toNormalized_dbl :: "Dimensions \<Rightarrow> jsnum \<Rightarrow> jsnum \<Rightarrow> Point" where
  "toNormalized_dbl d x y =
     \<lparr>px = dbl_div (dbl_sub (to_dbl x) (to_dbl (offsetX d))) (to_dbl (width d)),
      py = dbl_div (dbl_sub (to_dbl y) (to_dbl (offsetY d))) (to_dbl (height d))\<rparr>"

text \<open>
  The point \<open>clamped\<close> that \<open>handlePointerDown\<close> and \<open>handlePointerMove\<close> derive from an
  event at \<open>(x, y)\<close> relative to the container.
\<close>

definition clamped :: "Dimensions \<Rightarrow> jsnum \<Rightarrow> jsnum \<Rightarrow> Point" where
  "clamped d x y =
     (let pt = toNormalized_dbl d x y in \<lparr>px = clamp01 (px pt), py = clamp01 (py pt)\<rparr>)"

section \<open>Pointer handlers\<close>

text \<open>
  The distance that the hit test of \<open>handlePointerDown\<close> computes for one contour point.
\<close>

definition hit_dist :: "Dimensions \<Rightarrow> jsnum \<Rightarrow> jsnum \<Rightarrow> Point \<Rightarrow> jsnum" where
  "hit_dist d x y p =
     (let screenP = toScreen d p
      in js_hypot (js_sub (px screenP) x) (js_sub (py screenP) y))"

text \<open>
  The \<open>forEach\<close> of the hit test, from index \<open>i\<close> on, with the running \<open>minDist\<close> and
  \<open>foundIndex\<close>; \<open>foundIndex = -1\<close> is \<open>None\<close>.
\<close>

fun hit_scan ::
  "Dimensions \<Rightarrow> jsnum \<Rightarrow> jsnum \<Rightarrow> Point list \<Rightarrow> nat \<Rightarrow> jsnum \<times> nat option \<Rightarrow> jsnum \<times> nat option"
where
  "hit_scan d x y [] i acc = acc"
| "hit_scan d x y (p # ps) i (minDist, foundIndex) =
     (let dist = hit_dist d x y p
      in hit_scan d x y ps (Suc i)
           (if js_lt dist minDist then (dist, Some i) else (minDist, foundIndex)))"

definition nearest :: "Dimensions \<Rightarrow> jsnum \<Rightarrow> jsnum \<Rightarrow> Point list \<Rightarrow> nat option" where
  "nearest d x y ps = snd (hit_scan d x y ps 0 (Fin 30, None))"

definition show_magnifier :: "real \<Rightarrow> real \<Rightarrow> Magnifier option" where
  "show_magnifier x y = Some \<lparr>mag_show = True, mag_x = Fin x, mag_y = Fin y\<rparr>"

text \<open>
  \<open>handlePointerDown\<close> for an event at \<open>(x, y)\<close> relative to the container (client
  coordinates are finite).
\<close>

definition handlePointerDown :: "real \<Rightarrow> real \<Rightarrow> Editor \<Rightarrow> Editor" where
  "handlePointerDown x y s =
     (let c = clamped (dimensions s) (Fin x) (Fin y)
      in case tool s of
           Move \<Rightarrow>
             (case nearest (dimensions s) (Fin x) (Fin y) (points s) of
                Some foundIndex \<Rightarrow>
                  s\<lparr>draggingPointIndex := Some foundIndex,
                    magnifierState := show_magnifier x y\<rparr>
              | None \<Rightarrow> s)
         | Freehand \<Rightarrow>
             s\<lparr>isDrawing := True, points := points s @ [c],
               magnifierState := show_magnifier x y\<rparr>
         | Polygon \<Rightarrow>
             (let newPoints = points s @ [c]
              in saveHistory newPoints
                   (s\<lparr>points := newPoints, magnifierState := show_magnifier x y\<rparr>)))"




definition handlePointerUp :: "Editor \<Rightarrow> Editor" where
  "handlePointerUp s =
     (let s1 =
        (if tool s = Freehand \<and> isDrawing s then
           saveHistory (points s) (s\<lparr>isDrawing := False, magnifierState := None\<rparr>)
         else if tool s = Move \<and> draggingPointIndex s \<noteq> None then
           saveHistory (points s) (s\<lparr>draggingPointIndex := None, magnifierState := None\<rparr>)
         else s)
      in if tool s = Polygon then s1\<lparr>magnifierState := None\<rparr> else s1)"

text \<open>The \<open>onPointerLeave\<close> handler of the canvas area.\<close>

definition onPointerLeave :: "Editor \<Rightarrow> Editor" where
  "onPointerLeave s = (handlePointerUp s)\<lparr>cursorPos := None\<rparr>"

text \<open>The tool buttons: \<open>onClick={() => setTool(t)}\<close>.\<close>

definition setTool :: "ToolType \<Rightarrow> Editor \<Rightarrow> Editor" where
  "setTool t s = s\<lparr>tool := t\<rparr>"



section \<open>Finish\<close>

record CutoutData =
  cutout_points :: "Point list"
  textureUrl :: string
  aspectRatio :: jsnum

text \<open>
  \<open>handleFinish\<close> either alerts and returns (\<open>IncompleteContour\<close>) or calls \<open>onFinish\<close> with
  the cutout. It calls no state setter: the editor state after it is the state before.
\<close>

datatype finish_error = IncompleteContour

definition handleFinish :: "Editor \<Rightarrow> (finish_error + CutoutData) \<times> Editor" where
  "handleFinish s =
     (if length (points s) < 3 then (Inl IncompleteContour, s)
      else
        (Inr \<lparr>cutout_points = points s,
              textureUrl = imageUrl s,
              aspectRatio =
                (case imageElement s of
                   Some img \<Rightarrow> js_div (Fin (real (img_width img))) (Fin (real (img_height img)))
                 | None \<Rightarrow> Fin 1)\<rparr>,
         s))"

section \<open>Extrusion\<close>

text \<open>The planar position that \<open>shape\<close> gives a normalized point (\<open>scale = 5\<close>).\<close>

definition shape_point :: "jsnum \<Rightarrow> Point \<Rightarrow> jsnum \<times> jsnum" where
  "shape_point aspect p =
     (js_mul (js_mul (js_sub (px p) (Fin 0.5)) (Fin 5)) aspect,
      js_mul (js_neg (js_sub (py p) (Fin 0.5))) (Fin 5))"

text \<open>
  \<open>shape\<close>: the outline as the list of its vertices (\<open>moveTo\<close> the first, \<open>lineTo\<close> the
  rest, \<open>closePath\<close>); empty for fewer than three points.
\<close>

definition shape :: "CutoutData \<Rightarrow> (jsnum \<times> jsnum) list" where
  "shape data =
     (if length (cutout_points data) < 3 then []
      else map (shape_point (aspectRatio data)) (cutout_points data))"

text \<open>The UV pair that the loop of \<open>geometry\<close> sets for a vertex at \<open>(x, y)\<close>.\<close>

definition vertex_uv :: "jsnum \<Rightarrow> jsnum \<Rightarrow> jsnum \<Rightarrow> jsnum \<times> jsnum" where
  "vertex_uv aspect x y =
     (js_add (js_div x (js_mul (Fin 5) aspect)) (Fin 0.5),
      js_sub (Fin 1) (js_add (js_neg (js_div y (Fin 5))) (Fin 0.5)))"

text \<open>
  The UV loop of \<open>geometry\<close> over the position attribute of the extruded geometry. The
  positions are what \<open>THREE.ExtrudeGeometry\<close> built from the shape: a parameter here. The
  loop runs over every vertex, those of the front and back faces among them.
\<close>

definition geometry_uvs :: "jsnum \<Rightarrow> (jsnum \<times> jsnum \<times> jsnum) list \<Rightarrow> (jsnum \<times> jsnum) list" where
  "geometry_uvs aspect positions = map (\<lambda>(x, y, z). vertex_uv aspect x y) positions"

section \<open>Auxiliary notions\<close>

text \<open>The invariant of the history: the cursor is an index of the sequence.\<close>

definition cursor_ok :: "Editor \<Rightarrow> bool" where
  "cursor_ok s = (historyStep s < length (history s))"

text \<open>A number in the closed interval from 0 to 1.\<close>

definition in_unit_interval :: "jsnum \<Rightarrow> bool" where
  "in_unit_interval v = (case v of Fin a \<Rightarrow> 0 \<le> a \<and> a \<le> 1 | _ \<Rightarrow> False)"



section \<open>Example states\<close>

text \<open>
  An editor whose image of 800 by 400 pixels has loaded and been fitted into a container
  of 1000 by 600 pixels, and the contour of the scenario of the specification.
\<close>

definition example_editor :: Editor where
  "example_editor =
     fitImage 1000 600 ((initial [])\<lparr>imageElement := Some \<lparr>img_width = 800, img_height = 400\<rparr>\<rparr>)"

definition example_contour :: "Point list" where
  "example_contour =
     [\<lparr>px = Fin 0.25, py = Fin 0.25\<rparr>, \<lparr>px = Fin 0.75, py = Fin 0.25\<rparr>,
      \<lparr>px = Fin 0.5, py = Fin 0.75\<rparr>]"

text \<open>In Move mode, with two points 20 px apart on screen and a third far away.\<close>

definition move_editor :: Editor where
  "move_editor =
     example_editor\<lparr>tool := Move,
       points := [\<lparr>px = Fin 0.25, py = Fin 0.25\<rparr>, \<lparr>px = Fin 0.27, py = Fin 0.25\<rparr>,
                  \<lparr>px = Fin 0.5, py = Fin 0.75\<rparr>]\<rparr>"

text \<open>The same editor with a contour of two points, and with the example contour.\<close>

definition short_editor :: Editor where
  "short_editor =
     example_editor\<lparr>points := [\<lparr>px = Fin 0.25, py = Fin 0.25\<rparr>, \<lparr>px = Fin 0.75, py = Fin 0.25\<rparr>]\<rparr>"

definition traced_editor :: Editor where
  "traced_editor = example_editor\<lparr>points := example_contour\<rparr>"

text \<open>An editor with the example contour whose image has not loaded.\<close>

definition unloaded_editor :: Editor where
  "unloaded_editor = (initial [])\<lparr>points := example_contour\<rparr>"

text \<open>In the middle of a freehand stroke, and in the middle of a drag of point 1.\<close>

definition stroke_editor :: Editor where
  "stroke_editor =
     example_editor\<lparr>points := example_contour, isDrawing := True,
       magnifierState := show_magnifier 500 425\<rparr>"

definition drag_editor :: Editor where
  "drag_editor =
     move_editor\<lparr>draggingPointIndex := Some 1, magnifierState := show_magnifier 270 175\<rparr>"

text \<open>
  A freehand stroke begun at \<open>(250, 175)\<close> with the tool then switched to Move, and a
  drag of point 1 begun with the tool then switched to Polygon.
\<close>

definition switched_stroke :: Editor where
  "switched_stroke = setTool Move (handlePointerDown 250 175 example_editor)"

definition switched_drag :: Editor where
  "switched_drag = setTool Polygon (handlePointerDown 270 175 move_editor)"

text \<open>
  The cutout of the scenario (aspect ratio 2) and front-face vertices at the positions of
  its shape.
\<close>

definition example_cutout :: CutoutData where
  "example_cutout =
     \<lparr>cutout_points = example_contour, textureUrl = [], aspectRatio = Fin 2\<rparr>"

definition example_positions :: "(jsnum \<times> jsnum \<times> jsnum) list" where
  "example_positions = map (\<lambda>(x, y). (x, y, Fin 0)) (shape example_cutout)"

section \<open>The nearest double\<close>

lemma round_even_near:
  assumes "\<bar>y - of_int m\<bar> < 1 / 2"
  shows "round_even y = m"
proof (cases "of_int m \<le> y")
  case True
  then have "\<lfloor>y\<rfloor> = m"
    using assms by (intro floor_unique) auto
  then show ?thesis
    using assms True by (simp add: round_even_def Let_def)
next
  case False
  then have "\<lfloor>y\<rfloor> = m - 1"
    using assms by (intro floor_unique) auto
  then show ?thesis
    using assms False by (simp add: round_even_def Let_def)
qed

lemma binade_eq:
  assumes "2 powr of_int k \<le> \<bar>x\<bar>" "\<bar>x\<bar> < 2 powr (of_int k + 1)" "- 1022 \<le> k"
  shows "binade x = k"
proof -
  have "0 < (2::real) powr of_int k"
    by simp
  then have "0 < \<bar>x\<bar>"
    using assms(1) by linarith
  then have "\<lfloor>log 2 \<bar>x\<bar>\<rfloor> = k"
    using assms(1,2) by (simp add: floor_log_eq_powr_iff)
  then show ?thesis
    using assms(3) by (simp add: binade_def)
qed

lemma dbl_nearest:
  fixes k m :: int
  assumes u: "u = 2 powr (of_int k - 52)" and k: "- 1022 \<le> k" "k < 1023"
    and lo: "2 ^ 52 * u \<le> \<bar>x\<bar>" and hi: "\<bar>x\<bar> < 2 ^ 53 * u"
    and near: "\<bar>x - of_int m * u\<bar> < u / 2"
  shows "dbl x = Fin (of_int m * u)"
proof -
  have upos: "0 < u"
    using u by simp
  have p52: "2 ^ 52 * u = 2 powr of_int k"
    unfolding u by (simp add: powr_diff)
  have p53: "2 ^ 53 * u = 2 powr (of_int k + 1)"
    unfolding u by (simp add: powr_diff powr_add)
  have b: "binade x = k"
    using lo hi k(1) unfolding p52 p53 by (rule binade_eq)
  have "0 < 2 ^ 52 * u"
    using upos by simp
  then have x0: "x \<noteq> 0"
    using lo by auto
  have "\<bar>x / u - of_int m\<bar> = \<bar>x - of_int m * u\<bar> / u"
    using upos by (simp add: field_simps abs_mult)
  also have "\<dots> < 1 / 2"
    using near upos by (simp add: field_simps)
  finally have r: "round_even (x / u) = m"
    by (rule round_even_near)
  have "\<bar>of_int m * u\<bar> \<le> \<bar>x\<bar> + u / 2"
    using near by linarith
  also have "\<dots> < 2 powr (of_int k + 1) + 2 powr (of_int k + 1)"
  proof -
    have "u \<le> 2 ^ 53 * u"
      using upos by simp
    then have "u / 2 < 2 ^ 53 * u"
      using upos by linarith
    with hi show ?thesis
      unfolding p53 by linarith
  qed
  also have "\<dots> = 2 powr (of_int k + 2)"
    by (simp add: powr_add)
  also have "\<dots> \<le> 2 powr 1024"
    using k(2) by (intro powr_mono) auto
  finally have "\<bar>of_int m * u\<bar> < 2 powr 1024" .
  then show ?thesis
    using x0 b r u by (simp add: dbl_def Let_def)
qed

lemma dbl_zero: "dbl 0 = Fin 0"
  by (simp add: dbl_def)

lemma dbl_not_NaN: "dbl x \<noteq> NaN"
  by (simp add: dbl_def signed_inf_def Let_def)

text \<open>The doubles that the examples below round to.\<close>

lemma dbl_values:
  "dbl (5 / 4) = Fin (5 / 4)"
  "dbl (3 / 2) = Fin (3 / 2)"
  "dbl (1000) = Fin (1000)"
  "dbl (500) = Fin (500)"
  "dbl (100) = Fin (100)"
  "dbl (50) = Fin (50)"
  "dbl (175) = Fin (175)"
  "dbl (125) = Fin (125)"
  "dbl (1 / 4) = Fin (1 / 4)"
  "dbl (9007199254740991 / 9007199254740992) = Fin (9007199254740991 / 9007199254740992)"
  "dbl (9007199254740991 / 9007199254740992000) = Fin (4611686018427387 / 4611686018427387904)"
  "dbl (178) = Fin (178)"
  "dbl (128) = Fin (128)"
  "dbl (32 / 125) = Fin (1152921504606847 / 4503599627370496)"
  "dbl (4611686018427387 / 4611686018427387904) = Fin (4611686018427387 / 4611686018427387904)"
  "dbl (576460752303423375 / 576460752303423488) = Fin (4503599627370495 / 4503599627370496)"
  "dbl (1152921504606847 / 4503599627370496) = Fin (1152921504606847 / 4503599627370496)"
  "dbl (27021597764223 / 4503599627370496) = Fin (27021597764223 / 4503599627370496)"
  "dbl (3377699720527875 / 1125899906842624) = Fin (3377699720527875 / 1125899906842624)"
  "dbl (20282409603651661416747996545025 / 20282409603651670423947251286016) = Fin (2251799813685247 / 2251799813685248)"
  "dbl (11408855402054084879668652015625 / 1267650600228229401496703205376) = Fin (5066549580791817 / 562949953421312)"
  "dbl (22517998136852515 / 2251799813685248) = Fin (5629499534213129 / 562949953421312)"
  "dbl (250) = Fin (250)"
  "dbl (1 / 2) = Fin (1 / 2)"
  "dbl (425) = Fin (425)"
  "dbl (375) = Fin (375)"
  "dbl (3 / 4) = Fin (3 / 4)"
  "dbl (625) = Fin (625)"
  "dbl (5 / 8) = Fin (5 / 8)"
  "dbl (1 / 8) = Fin (1 / 8)"
  "dbl (15625) = Fin (15625)"
  subgoal using dbl_nearest [where k = 0 and m = 5629499534213120 and u = "1 / 2 ^ 52" and x = "5 / 4"]
    by (simp add: powr_neg_numeral)
  subgoal using dbl_nearest [where k = 0 and m = 6755399441055744 and u = "1 / 2 ^ 52" and x = "3 / 2"]
    by (simp add: powr_neg_numeral)
  subgoal using dbl_nearest [where k = 9 and m = 8796093022208000 and u = "1 / 2 ^ 43" and x = "1000"]
    by (simp add: powr_neg_numeral)
  subgoal using dbl_nearest [where k = 8 and m = 8796093022208000 and u = "1 / 2 ^ 44" and x = "500"]
    by (simp add: powr_neg_numeral)
  subgoal using dbl_nearest [where k = 6 and m = 7036874417766400 and u = "1 / 2 ^ 46" and x = "100"]
    by (simp add: powr_neg_numeral)
  subgoal using dbl_nearest [where k = 5 and m = 7036874417766400 and u = "1 / 2 ^ 47" and x = "50"]
    by (simp add: powr_neg_numeral)
  subgoal using dbl_nearest [where k = 7 and m = 6157265115545600 and u = "1 / 2 ^ 45" and x = "175"]
    by (simp add: powr_neg_numeral)
  subgoal using dbl_nearest [where k = 6 and m = 8796093022208000 and u = "1 / 2 ^ 46" and x = "125"]
    by (simp add: powr_neg_numeral)
  subgoal using dbl_nearest [where k = "- 2" and m = 4503599627370496 and u = "1 / 2 ^ 54" and x = "1 / 4"]
    by (simp add: powr_neg_numeral)
  subgoal using dbl_nearest [where k = "- 1" and m = 9007199254740991 and u = "1 / 2 ^ 53" and x = "9007199254740991 / 9007199254740992"]
    by (simp add: powr_neg_numeral)
  subgoal using dbl_nearest [where k = "- 10" and m = 4611686018427387 and u = "1 / 2 ^ 62" and x = "9007199254740991 / 9007199254740992000"]
    by (simp add: powr_neg_numeral)
  subgoal using dbl_nearest [where k = 7 and m = 6262818231812096 and u = "1 / 2 ^ 45" and x = "178"]
    by (simp add: powr_neg_numeral)
  subgoal using dbl_nearest [where k = 7 and m = 4503599627370496 and u = "1 / 2 ^ 45" and x = "128"]
    by (simp add: powr_neg_numeral)
  subgoal using dbl_nearest [where k = "- 2" and m = 4611686018427388 and u = "1 / 2 ^ 54" and x = "32 / 125"]
    by (simp add: powr_neg_numeral)
  subgoal using dbl_nearest [where k = "- 10" and m = 4611686018427387 and u = "1 / 2 ^ 62" and x = "4611686018427387 / 4611686018427387904"]
    by (simp add: powr_neg_numeral)
  subgoal using dbl_nearest [where k = "- 1" and m = 9007199254740990 and u = "1 / 2 ^ 53" and x = "576460752303423375 / 576460752303423488"]
    by (simp add: powr_neg_numeral)
  subgoal using dbl_nearest [where k = "- 2" and m = 4611686018427388 and u = "1 / 2 ^ 54" and x = "1152921504606847 / 4503599627370496"]
    by (simp add: powr_neg_numeral)
  subgoal using dbl_nearest [where k = "- 8" and m = 6917529027641088 and u = "1 / 2 ^ 60" and x = "27021597764223 / 4503599627370496"]
    by (simp add: powr_neg_numeral)
  subgoal using dbl_nearest [where k = 1 and m = 6755399441055750 and u = "1 / 2 ^ 51" and x = "3377699720527875 / 1125899906842624"]
    by (simp add: powr_neg_numeral)
  subgoal using dbl_nearest [where k = "- 1" and m = 9007199254740988 and u = "1 / 2 ^ 53" and x = "20282409603651661416747996545025 / 20282409603651670423947251286016"]
    by (simp add: powr_neg_numeral)
  subgoal using dbl_nearest [where k = 3 and m = 5066549580791817 and u = "1 / 2 ^ 49" and x = "11408855402054084879668652015625 / 1267650600228229401496703205376"]
    by (simp add: powr_neg_numeral)
  subgoal using dbl_nearest [where k = 3 and m = 5629499534213129 and u = "1 / 2 ^ 49" and x = "22517998136852515 / 2251799813685248"]
    by (simp add: powr_neg_numeral)
  subgoal using dbl_nearest [where k = 7 and m = 8796093022208000 and u = "1 / 2 ^ 45" and x = "250"]
    by (simp add: powr_neg_numeral)
  subgoal using dbl_nearest [where k = "- 1" and m = 4503599627370496 and u = "1 / 2 ^ 53" and x = "1 / 2"]
    by (simp add: powr_neg_numeral)
  subgoal using dbl_nearest [where k = 8 and m = 7476679068876800 and u = "1 / 2 ^ 44" and x = "425"]
    by (simp add: powr_neg_numeral)
  subgoal using dbl_nearest [where k = 8 and m = 6597069766656000 and u = "1 / 2 ^ 44" and x = "375"]
    by (simp add: powr_neg_numeral)
  subgoal using dbl_nearest [where k = "- 1" and m = 6755399441055744 and u = "1 / 2 ^ 53" and x = "3 / 4"]
    by (simp add: powr_neg_numeral)
  subgoal using dbl_nearest [where k = 9 and m = 5497558138880000 and u = "1 / 2 ^ 43" and x = "625"]
    by (simp add: powr_neg_numeral)
  subgoal using dbl_nearest [where k = "- 1" and m = 5629499534213120 and u = "1 / 2 ^ 53" and x = "5 / 8"]
    by (simp add: powr_neg_numeral)
  subgoal using dbl_nearest [where k = "- 3" and m = 4503599627370496 and u = "1 / 2 ^ 55" and x = "1 / 8"]
    by (simp add: powr_neg_numeral)
  subgoal using dbl_nearest [where k = 13 and m = 8589934592000000 and u = "1 / 2 ^ 39" and x = "15625"]
    by (simp add: powr_neg_numeral)
  done

section \<open>The clamp on finite and special values\<close>

lemma clamp01_Fin: "clamp01 (Fin a) = Fin (max 0 (min 1 a))"
  by (auto simp: clamp01_def)

lemma clamp01_cases:
  "clamp01 NaN = NaN" "clamp01 PInf = Fin 1" "clamp01 NInf = Fin 0"
  by (simp_all add: clamp01_def)

section \<open>The history stack\<close>

lemma saveHistory_history:
  "history (saveHistory c s) = take (historyStep s + 1) (history s) @ [c]"
  by (simp add: saveHistory_def Let_def)

lemma saveHistory_step:
  "historyStep (saveHistory c s) = length (take (historyStep s + 1) (history s))"
  by (simp add: saveHistory_def Let_def)

lemma saveHistory_points: "points (saveHistory c s) = points s"
  by (simp add: saveHistory_def Let_def)

lemma cursor_ok_initial: "cursor_ok (initial url)"
  by (simp add: cursor_ok_def initial_def)

lemma cursor_ok_saveHistory: "cursor_ok (saveHistory c s)"
  by (simp add: cursor_ok_def saveHistory_def Let_def)

lemma cursor_ok_handleClear: "cursor_ok (handleClear s)"
  by (simp add: handleClear_def cursor_ok_saveHistory)

lemma handleUndo_no_fault:
  assumes "cursor_ok s"
  shows "\<exists>s'. handleUndo s = Inr s' \<and> cursor_ok s'"
  using assms by (auto simp: cursor_ok_def handleUndo_def Let_def)

lemma handleRedo_no_fault:
  assumes "cursor_ok s"
  shows "\<exists>s'. handleRedo s = Inr s' \<and> cursor_ok s'"
  using assms by (auto simp: cursor_ok_def handleRedo_def Let_def)

text \<open>
  Claim C2. From the initial stack (one empty snapshot, cursor 0): undo at cursor 0
  changes nothing (history, cursor and live contour); redo with the cursor at the last
  index changes nothing; a commit (\<open>saveHistory\<close>) keeps the entries up to the cursor,
  drops the ones beyond it, appends the new contour and puts the cursor on the new last
  index, leaving the live contour to its caller. So commit A, commit B, undo, commit C
  from the initial state ends with the history \<open>[[], A, C]\<close>, the cursor on \<open>C\<close> (index 2),
  and redo changing nothing.
\<close>

theorem history_stack:
  "(historyStep s = 0 \<longrightarrow> handleUndo s = Inr s)
   \<and> (Suc (historyStep s) = length (history s) \<longrightarrow> handleRedo s = Inr s)
   \<and> history (saveHistory c s) = take (historyStep s + 1) (history s) @ [c]
   \<and> Suc (historyStep (saveHistory c s)) = length (history (saveHistory c s))
   \<and> points (saveHistory c s) = points s
   \<and> (\<exists>s3. handleUndo (saveHistory B (saveHistory A (initial url))) = Inr s3
         \<and> points s3 = A
         \<and> history (saveHistory C s3) = [[], A, C]
         \<and> historyStep (saveHistory C s3) = 2
         \<and> handleRedo (saveHistory C s3) = Inr (saveHistory C s3))"
proof (intro conjI impI)
  assume "historyStep s = 0"
  then show "handleUndo s = Inr s"
    by (simp add: handleUndo_def)
next
  assume "Suc (historyStep s) = length (history s)"
  then show "handleRedo s = Inr s"
    by (simp add: handleRedo_def)
next
  show "history (saveHistory c s) = take (historyStep s + 1) (history s) @ [c]"
    by (rule saveHistory_history)
next
  show "Suc (historyStep (saveHistory c s)) = length (history (saveHistory c s))"
    by (simp add: saveHistory_def Let_def)
next
  show "points (saveHistory c s) = points s"
    by (rule saveHistory_points)
next
  show "\<exists>s3. handleUndo (saveHistory B (saveHistory A (initial url))) = Inr s3
         \<and> points s3 = A
         \<and> history (saveHistory C s3) = [[], A, C]
         \<and> historyStep (saveHistory C s3) = 2
         \<and> handleRedo (saveHistory C s3) = Inr (saveHistory C s3)"
    by (simp add: handleUndo_def handleRedo_def saveHistory_def initial_def Let_def)
qed

theorem history_stack_witness:
  "historyStep (initial []) = 0 \<and> handleUndo (initial []) = Inr (initial [])
   \<and> Suc (historyStep (initial [])) = length (history (initial []))
   \<and> handleRedo (initial []) = Inr (initial [])"
  using history_stack [of "initial []" "[]" "[]" "[]" "[]" "[]"]
  by (simp add: initial_def)

section \<open>Comparison and the hit test loop\<close>












lemma example_dimensions:
  "dimensions example_editor =
     \<lparr>width = Fin 1000, height = Fin 500, scale = Fin (5 / 4), offsetX = Fin 0, offsetY = Fin 50\<rparr>"
  by (simp add: example_editor_def fitImage_def initial_def dbl_div_def dbl_mul_def
      dbl_sub_def dbl_values dbl_zero js_sub_def Let_def)

lemma move_editor_fields:
  "tool move_editor = Move" "draggingPointIndex move_editor = None"
  "length (points move_editor) = 3"
  "points move_editor =
     [\<lparr>px = Fin 0.25, py = Fin 0.25\<rparr>, \<lparr>px = Fin 0.27, py = Fin 0.25\<rparr>,
      \<lparr>px = Fin 0.5, py = Fin 0.75\<rparr>]"
  "dimensions move_editor = dimensions example_editor"
  "history move_editor = [[]]" "historyStep move_editor = 0"
  by (simp_all add: move_editor_def example_editor_def fitImage_def initial_def Let_def)




section \<open>The guard of Finish\<close>

text \<open>
  Claim C3. Finish on a contour of fewer than three points fails with
  \<open>IncompleteContour\<close>: no cutout is produced and the editor state (contour, history and
  tool with it) is the one before. Finish on a contour of three or more points, with the
  image loaded, produces a cutout whose points are the current contour and whose aspect
  ratio is the intrinsic width of the image divided by its intrinsic height.
\<close>

theorem finish_guard:
  "(length (points s) < 3 \<longrightarrow> handleFinish s = (Inl IncompleteContour, s))
   \<and> (3 \<le> length (points s) \<and> imageElement s = Some img \<longrightarrow>
        (\<exists>data. handleFinish s = (Inr data, s)
           \<and> cutout_points data = points s
           \<and> aspectRatio data = js_div (Fin (real (img_width img))) (Fin (real (img_height img)))
           \<and> (img_height img \<noteq> 0 \<longrightarrow>
                aspectRatio data = Fin (real (img_width img) / real (img_height img)))))"
  by (simp add: handleFinish_def)

theorem finish_guard_witness:
  "length (points short_editor) < 3
   \<and> handleFinish short_editor = (Inl IncompleteContour, short_editor)
   \<and> 3 \<le> length (points traced_editor)
   \<and> imageElement traced_editor = Some \<lparr>img_width = 800, img_height = 400\<rparr>
   \<and> (\<exists>data. handleFinish traced_editor = (Inr data, traced_editor)
         \<and> cutout_points data = example_contour \<and> aspectRatio data = Fin 2)"
proof -
  have short: "length (points short_editor) < 3"
    by (simp add: short_editor_def)
  have traced: "3 \<le> length (points traced_editor)"
    "imageElement traced_editor = Some \<lparr>img_width = 800, img_height = 400\<rparr>"
    "points traced_editor = example_contour"
    by (simp_all add: traced_editor_def example_contour_def example_editor_def fitImage_def
        initial_def Let_def)
  from finish_guard [of short_editor] short
  have "handleFinish short_editor = (Inl IncompleteContour, short_editor)"
    by blast
  moreover from finish_guard [of traced_editor "\<lparr>img_width = 800, img_height = 400\<rparr>"] traced
  have "\<exists>data. handleFinish traced_editor = (Inr data, traced_editor)
         \<and> cutout_points data = example_contour \<and> aspectRatio data = Fin 2"
    by auto
  ultimately show ?thesis
    using short traced by blast
qed

text \<open>
  Claim C10. Finish on a contour of three or more points while the image has not loaded
  (\<open>imageElement\<close> is \<open>null\<close>) still produces a cutout, with the current contour and the
  aspect ratio 1.
\<close>

theorem finish_without_image:
  "3 \<le> length (points s) \<and> imageElement s = None \<longrightarrow>
     (\<exists>data. handleFinish s = (Inr data, s)
        \<and> cutout_points data = points s \<and> aspectRatio data = Fin 1)"
  by (simp add: handleFinish_def)

theorem finish_without_image_witness:
  "3 \<le> length (points unloaded_editor) \<and> imageElement unloaded_editor = None
   \<and> (\<exists>data. handleFinish unloaded_editor = (Inr data, unloaded_editor)
         \<and> cutout_points data = example_contour \<and> aspectRatio data = Fin 1)"
proof -
  have h: "3 \<le> length (points unloaded_editor)" "imageElement unloaded_editor = None"
    "points unloaded_editor = example_contour"
    by (simp_all add: unloaded_editor_def example_contour_def initial_def)
  with finish_without_image [of unloaded_editor] show ?thesis
    by auto
qed

section \<open>Leaving the surface\<close>

text \<open>
  \<open>onPointerLeave\<close> leaves the contour, the history and its cursor, the stroke and drag
  state, the magnifier and the tool exactly as \<open>handlePointerUp\<close> does. While the tool is
  the one of the gesture in flight (Freehand with \<open>isDrawing\<close>, Move with an index
  recorded), it commits the contour as one history entry after the cursor, keeps the
  contour, hides the magnifier and ends the stroke or the drag.
\<close>

lemma leave_is_pointer_up:
  "points (onPointerLeave s) = points (handlePointerUp s)
   \<and> history (onPointerLeave s) = history (handlePointerUp s)
   \<and> historyStep (onPointerLeave s) = historyStep (handlePointerUp s)
   \<and> isDrawing (onPointerLeave s) = isDrawing (handlePointerUp s)
   \<and> draggingPointIndex (onPointerLeave s) = draggingPointIndex (handlePointerUp s)
   \<and> magnifierState (onPointerLeave s) = magnifierState (handlePointerUp s)
   \<and> tool (onPointerLeave s) = tool (handlePointerUp s)
   \<and> (tool s = Freehand \<and> isDrawing s \<or> tool s = Move \<and> draggingPointIndex s \<noteq> None \<longrightarrow>
        points (onPointerLeave s) = points s
        \<and> history (onPointerLeave s) = take (historyStep s + 1) (history s) @ [points s]
        \<and> Suc (historyStep (onPointerLeave s)) = length (history (onPointerLeave s))
        \<and> magnifierState (onPointerLeave s) = None
        \<and> (tool s = Freehand \<longrightarrow> \<not> isDrawing (onPointerLeave s))
        \<and> (tool s = Move \<longrightarrow> draggingPointIndex (onPointerLeave s) = None))"
  by (auto simp: onPointerLeave_def handlePointerUp_def saveHistory_def Let_def)

lemma leave_commits_examples:
  "tool stroke_editor = Freehand \<and> isDrawing stroke_editor
   \<and> history (onPointerLeave stroke_editor) = [[], example_contour]
   \<and> historyStep (onPointerLeave stroke_editor) = 1
   \<and> \<not> isDrawing (onPointerLeave stroke_editor)
   \<and> magnifierState (onPointerLeave stroke_editor) = None
   \<and> tool drag_editor = Move \<and> draggingPointIndex drag_editor \<noteq> None
   \<and> history (onPointerLeave drag_editor) = [[], points move_editor]
   \<and> draggingPointIndex (onPointerLeave drag_editor) = None
   \<and> magnifierState (onPointerLeave drag_editor) = None"
proof -
  have st: "tool stroke_editor = Freehand" "isDrawing stroke_editor"
    "history stroke_editor = [[]]" "historyStep stroke_editor = 0"
    "points stroke_editor = example_contour"
    by (simp_all add: stroke_editor_def example_editor_def fitImage_def initial_def Let_def)
  have dr: "tool drag_editor = Move" "draggingPointIndex drag_editor \<noteq> None"
    "history drag_editor = [[]]" "historyStep drag_editor = 0"
    "points drag_editor = points move_editor"
    by (simp_all add: drag_editor_def move_editor_fields)
  have "tool stroke_editor = Freehand \<and> isDrawing stroke_editor
      \<or> tool stroke_editor = Move \<and> draggingPointIndex stroke_editor \<noteq> None"
    using st by simp
  with leave_is_pointer_up [of stroke_editor]
  have "history (onPointerLeave stroke_editor)
        = take (historyStep stroke_editor + 1) (history stroke_editor) @ [points stroke_editor]
      \<and> Suc (historyStep (onPointerLeave stroke_editor)) = length (history (onPointerLeave stroke_editor))
      \<and> magnifierState (onPointerLeave stroke_editor) = None
      \<and> (tool stroke_editor = Freehand \<longrightarrow> \<not> isDrawing (onPointerLeave stroke_editor))"
    by blast
  then have "history (onPointerLeave stroke_editor) = [[], example_contour]
      \<and> historyStep (onPointerLeave stroke_editor) = 1
      \<and> \<not> isDrawing (onPointerLeave stroke_editor)
      \<and> magnifierState (onPointerLeave stroke_editor) = None"
    using st by auto
  moreover have "tool drag_editor = Freehand \<and> isDrawing drag_editor
      \<or> tool drag_editor = Move \<and> draggingPointIndex drag_editor \<noteq> None"
    using dr by simp
  with leave_is_pointer_up [of drag_editor]
  have "history (onPointerLeave drag_editor)
        = take (historyStep drag_editor + 1) (history drag_editor) @ [points drag_editor]
      \<and> magnifierState (onPointerLeave drag_editor) = None
      \<and> (tool drag_editor = Move \<longrightarrow> draggingPointIndex (onPointerLeave drag_editor) = None)"
    by blast
  then have "history (onPointerLeave drag_editor) = [[], points move_editor]
      \<and> draggingPointIndex (onPointerLeave drag_editor) = None
      \<and> magnifierState (onPointerLeave drag_editor) = None"
    using dr by auto
  ultimately show ?thesis
    using st dr by simp
qed

text \<open>
  Claim C8 says that leaving the surface commits the contour in flight and clears the
  transient state, with no path that abandons a stroke or drag uncommitted. The tool
  buttons set the tool and nothing else. After a freehand pointer-down at \<open>(250, 175)\<close>
  and a switch to the Move tool, the stroke is still in flight (\<open>isDrawing\<close>, its point in
  the contour and not in the history); leaving the surface then takes no branch of
  \<open>handlePointerUp\<close>: nothing is committed and \<open>isDrawing\<close> stays set. A pointer-up does
  the same.
\<close>

theorem leave_abandons_switched_stroke:
  "tool switched_stroke = Move
   \<and> isDrawing switched_stroke
   \<and> points switched_stroke = [\<lparr>px = Fin (1 / 4), py = Fin (1 / 4)\<rparr>]
   \<and> history switched_stroke = [[]]
   \<and> historyStep switched_stroke = 0
   \<and> points (onPointerLeave switched_stroke) = [\<lparr>px = Fin (1 / 4), py = Fin (1 / 4)\<rparr>]
   \<and> history (onPointerLeave switched_stroke) = [[]]
   \<and> historyStep (onPointerLeave switched_stroke) = 0
   \<and> isDrawing (onPointerLeave switched_stroke)
   \<and> history (handlePointerUp switched_stroke) = [[]]
   \<and> isDrawing (handlePointerUp switched_stroke)"
proof -
  have ed: "tool example_editor = Freehand" "points example_editor = []"
    "history example_editor = [[]]" "historyStep example_editor = 0"
    "draggingPointIndex example_editor = None"
    by (simp_all add: example_editor_def fitImage_def initial_def Let_def)
  have c: "clamped (dimensions example_editor) (Fin 250) (Fin 175)
      = \<lparr>px = Fin (1 / 4), py = Fin (1 / 4)\<rparr>"
    by (simp add: example_dimensions clamped_def toNormalized_dbl_def dbl_div_def dbl_sub_def
        dbl_values dbl_zero clamp01_Fin js_sub_def Let_def)
  have sw: "tool switched_stroke = Move" "isDrawing switched_stroke"
    "points switched_stroke = [\<lparr>px = Fin (1 / 4), py = Fin (1 / 4)\<rparr>]"
    "history switched_stroke = [[]]" "historyStep switched_stroke = 0"
    "draggingPointIndex switched_stroke = None"
    by (simp_all add: switched_stroke_def setTool_def handlePointerDown_def ed c Let_def)
  have up: "handlePointerUp switched_stroke = switched_stroke"
    by (simp add: handlePointerUp_def sw)
  show ?thesis
    by (simp add: onPointerLeave_def up sw)
qed

section \<open>A pointer-down that hits no point\<close>






section \<open>Clamping and the round trip\<close>

lemma clamp01_in_unit_iff: "in_unit_interval (clamp01 v) \<longleftrightarrow> v \<noteq> NaN"
  by (cases v) (auto simp: clamp01_Fin clamp01_cases in_unit_interval_def)

lemma to_dbl_not_NaN: "v \<noteq> NaN \<Longrightarrow> to_dbl v \<noteq> NaN"
  by (cases v) (simp_all add: dbl_not_NaN)

lemma dbl_sub_not_NaN: "v \<noteq> NaN \<Longrightarrow> dbl_sub v (Fin b) \<noteq> NaN"
  by (cases v) (simp_all add: dbl_sub_def js_sub_def dbl_not_NaN)

lemma dbl_div_not_NaN: "v \<noteq> NaN \<Longrightarrow> w \<noteq> 0 \<Longrightarrow> dbl_div v (Fin w) \<noteq> NaN"
  by (cases v) (simp_all add: dbl_div_def dbl_not_NaN)

text \<open>
  With dimensions that the handlers read as finite doubles, the width and the height not
  zero, the point derived from an event lies in the unit square.
\<close>

lemma clamped_in_unit_square:
  assumes "to_dbl (width d) = Fin w" "w \<noteq> 0" "to_dbl (height d) = Fin h" "h \<noteq> 0"
    and "to_dbl (offsetX d) = Fin ox" "to_dbl (offsetY d) = Fin oy"
  shows "in_unit_interval (px (clamped d (Fin x) (Fin y)))
       \<and> in_unit_interval (py (clamped d (Fin x) (Fin y)))"
proof -
  have "dbl_div (dbl_sub (to_dbl (Fin x)) (Fin ox)) (Fin w) \<noteq> NaN"
    using assms(2) by (intro dbl_div_not_NaN dbl_sub_not_NaN to_dbl_not_NaN) simp_all
  moreover have "dbl_div (dbl_sub (to_dbl (Fin y)) (Fin oy)) (Fin h) \<noteq> NaN"
    using assms(4) by (intro dbl_div_not_NaN dbl_sub_not_NaN to_dbl_not_NaN) simp_all
  ultimately show ?thesis
    using assms by (simp add: clamped_def toNormalized_dbl_def clamp01_in_unit_iff Let_def)
qed

text \<open>
  Claim C6 says that the point derived from any pointer input lies in the unit square.
  Before the image has loaded the dimensions are all zero; a pointer-down at the origin of
  the container then divides zero by zero on both axes, the clamp passes \<open>NaN\<close> through,
  and the freehand tool appends the point \<open>(NaN, NaN)\<close> to the contour.
\<close>

theorem clamp_misses_nan:
  "dimensions (initial []) = initial_dimensions
   \<and> tool (initial []) = Freehand
   \<and> toNormalized initial_dimensions (Fin 0) (Fin 0) = \<lparr>px = NaN, py = NaN\<rparr>
   \<and> clamped initial_dimensions (Fin 0) (Fin 0) = \<lparr>px = NaN, py = NaN\<rparr>
   \<and> points (handlePointerDown 0 0 (initial [])) = [\<lparr>px = NaN, py = NaN\<rparr>]
   \<and> \<not> in_unit_interval (px (clamped initial_dimensions (Fin 0) (Fin 0)))
   \<and> \<not> in_unit_interval (py (clamped initial_dimensions (Fin 0) (Fin 0)))"
  by (simp add: handlePointerDown_def clamped_def toNormalized_def toNormalized_dbl_def
      dbl_div_def dbl_sub_def dbl_zero clamp01_cases js_sub_def
      initial_def initial_dimensions_def in_unit_interval_def Let_def)

text \<open>
  Claim C7. For dimensions with finite offsets and finite nonzero width and height, and
  a point with finite coordinates, \<open>toNormalized\<close> of \<open>toScreen\<close> of the point is the point.
  The arithmetic of the model is exact, so the round trip is an equality.
\<close>

theorem round_trip:
  assumes "width d = Fin w" "w \<noteq> 0" "height d = Fin h" "h \<noteq> 0"
    and "offsetX d = Fin ox" "offsetY d = Fin oy"
    and "p = \<lparr>px = Fin a, py = Fin b\<rparr>"
  shows "toNormalized d (px (toScreen d p)) (py (toScreen d p)) = p"
  using assms
  by (simp add: toNormalized_def toScreen_def js_sub_def)

theorem round_trip_witness:
  "width (dimensions example_editor) = Fin 1000 \<and> (1000::real) \<noteq> 0
   \<and> height (dimensions example_editor) = Fin 500 \<and> (500::real) \<noteq> 0
   \<and> offsetX (dimensions example_editor) = Fin 0 \<and> offsetY (dimensions example_editor) = Fin 50
   \<and> toScreen (dimensions example_editor) \<lparr>px = Fin 0.25, py = Fin 0.75\<rparr>
       = \<lparr>px = Fin 250, py = Fin 425\<rparr>
   \<and> toNormalized (dimensions example_editor) (Fin 250) (Fin 425)
       = \<lparr>px = Fin 0.25, py = Fin 0.75\<rparr>"
proof -
  have d: "width (dimensions example_editor) = Fin 1000"
    "height (dimensions example_editor) = Fin 500"
    "offsetX (dimensions example_editor) = Fin 0" "offsetY (dimensions example_editor) = Fin 50"
    by (simp_all add: example_dimensions)
  have sc: "toScreen (dimensions example_editor) \<lparr>px = Fin 0.25, py = Fin 0.75\<rparr>
       = \<lparr>px = Fin 250, py = Fin 425\<rparr>"
    by (simp add: example_dimensions toScreen_def)
  from round_trip [of "dimensions example_editor" 1000 500 0 50
      "\<lparr>px = Fin 0.25, py = Fin 0.75\<rparr>" "0.25" "0.75"] d sc
  have "toNormalized (dimensions example_editor) (Fin 250) (Fin 425)
       = \<lparr>px = Fin 0.25, py = Fin 0.75\<rparr>"
    by simp
  with d sc show ?thesis by simp
qed

section \<open>The freehand distance filter\<close>










section \<open>Texture coordinates of the extruded mesh\<close>

text \<open>
  Claim C1. Every vertex of the geometry, those of the front and back faces among them,
  is assigned \<open>u = x / (5 * aspect) + 0.5\<close> and \<open>v = 1 - (-(y / 5) + 0.5)\<close> for its planar
  position \<open>(x, y)\<close>. For a nonzero finite aspect ratio, a vertex at the position that
  the shape gives the normalized point \<open>(a, b)\<close>, which is
  \<open>((a - 0.5) * 5 * aspect, -(b - 0.5) * 5)\<close>, is assigned \<open>(a, 1 - b)\<close>; with aspect
  ratio 2 the vertex from \<open>(0.25, 0.25)\<close> is assigned \<open>(0.25, 0.75)\<close>.
\<close>

theorem uv_inverts_shape:
  "(\<forall>i<length positions.
       geometry_uvs aspect positions ! i =
         (case positions ! i of (x, y, z) \<Rightarrow>
            (js_add (js_div x (js_mul (Fin 5) aspect)) (Fin 0.5),
             js_sub (Fin 1) (js_add (js_neg (js_div y (Fin 5))) (Fin 0.5)))))
   \<and> (asp \<noteq> 0 \<longrightarrow>
        vertex_uv (Fin asp) (Fin x) (Fin y) = (Fin (x / (5 * asp) + 0.5), Fin (1 - (- (y / 5) + 0.5)))
        \<and> shape_point (Fin asp) \<lparr>px = Fin a, py = Fin b\<rparr> = (Fin ((a - 0.5) * 5 * asp), Fin (- (b - 0.5) * 5))
        \<and> (case shape_point (Fin asp) \<lparr>px = Fin a, py = Fin b\<rparr> of
              (x, y) \<Rightarrow> vertex_uv (Fin asp) x y = (Fin a, Fin (1 - b))))
   \<and> (case shape_point (Fin 2) \<lparr>px = Fin 0.25, py = Fin 0.25\<rparr> of
         (x, y) \<Rightarrow> vertex_uv (Fin 2) x y = (Fin 0.25, Fin 0.75))"
proof (intro conjI impI allI)
  fix i assume "i < length positions"
  then show "geometry_uvs aspect positions ! i =
         (case positions ! i of (x, y, z) \<Rightarrow>
            (js_add (js_div x (js_mul (Fin 5) aspect)) (Fin 0.5),
             js_sub (Fin 1) (js_add (js_neg (js_div y (Fin 5))) (Fin 0.5))))"
    by (simp add: geometry_uvs_def vertex_uv_def split: prod.splits)
next
  assume "asp \<noteq> 0"
  then show "vertex_uv (Fin asp) (Fin x) (Fin y) =
      (Fin (x / (5 * asp) + 0.5), Fin (1 - (- (y / 5) + 0.5)))"
    by (simp add: vertex_uv_def js_sub_def)
next
  show "shape_point (Fin asp) \<lparr>px = Fin a, py = Fin b\<rparr> =
      (Fin ((a - 0.5) * 5 * asp), Fin (- (b - 0.5) * 5))"
    by (simp add: shape_point_def js_sub_def)
next
  assume "asp \<noteq> 0"
  then show "case shape_point (Fin asp) \<lparr>px = Fin a, py = Fin b\<rparr> of
      (x, y) \<Rightarrow> vertex_uv (Fin asp) x y = (Fin a, Fin (1 - b))"
    by (simp add: vertex_uv_def shape_point_def js_sub_def field_simps)
next
  show "case shape_point (Fin 2) \<lparr>px = Fin 0.25, py = Fin 0.25\<rparr> of
      (x, y) \<Rightarrow> vertex_uv (Fin 2) x y = (Fin 0.25, Fin 0.75)"
    by (simp add: vertex_uv_def shape_point_def js_sub_def)
qed

theorem uv_inverts_shape_witness:
  "0 < length example_positions
   \<and> example_positions ! 0 = (Fin (- 2.5), Fin 1.25, Fin 0)
   \<and> geometry_uvs (Fin 2) example_positions ! 0 = (Fin 0.25, Fin 0.75)
   \<and> (2::real) \<noteq> 0
   \<and> vertex_uv (Fin 2) (Fin 2.5) (Fin 1.25) = (Fin 0.75, Fin 0.75)
   \<and> shape_point (Fin 2) \<lparr>px = Fin 0.5, py = Fin 0.75\<rparr> = (Fin 0, Fin (- 1.25))
   \<and> vertex_uv (Fin 2) (Fin 0) (Fin (- 1.25)) = (Fin 0.5, Fin 0.25)"
proof -
  have pos: "0 < length example_positions"
    "example_positions ! 0 = (Fin (- 2.5), Fin 1.25, Fin 0)"
    by (simp_all add: example_positions_def example_cutout_def example_contour_def shape_def
        shape_point_def js_sub_def)
  from uv_inverts_shape [of example_positions "Fin 2" 2 "2.5" "1.25" "0.5" "0.75"] pos
  show ?thesis
    by (auto simp: js_sub_def)
qed

end
